theory Spec2Isabelle
  imports Main
begin

section \<open>The .env.example generator of src/generator/env-file.ts\<close>

text \<open>
  The module exports two functions. \<open>generateEnvExample\<close> builds the text of the
  \<^verbatim>\<open>.env.example\<close> file from the \<open>securitySchemes\<close> object of an OpenAPI document
  and the CLI options; \<open>generateDotenvConfig\<close> returns a fixed piece of source text.
  Both only assemble strings, so the embedding is a pair of HOL functions on values.
\<close>

subsection \<open>JavaScript values\<close>

text \<open>
  The scheme mapping is data parsed from a document, so at run time an entry can be any
  JSON-like value, whatever the TypeScript signature says. An object is the list of its
  own enumerable string-keyed properties in the order they were created (a well-formed
  object has distinct keys); it is plain data, with no other property of its own and
  none inherited under a name that this module reads. An array behaves, for every operation this module performs,
  like the object whose keys are its indices, so it needs no constructor of its own.
  Numbers are only ever tested for truthiness here; integers stand for them.
  A string is a list of characters; each \<open>char\<close> stands for one code unit.
\<close>

datatype jsval =
    JUndefined
  | JNull
  | JBool bool
  | JNum int
  | JStr string
  | JObj "(string \<times> jsval) list"

text \<open>The only exception the module can raise.\<close>

datatype error = TypeError

text \<open>ToBoolean: \<open>undefined\<close>, \<open>null\<close>, \<open>false\<close>, \<open>0\<close> and the empty string are falsy.\<close>

fun truthy :: "jsval \<Rightarrow> bool" where
  "truthy JUndefined = False"
| "truthy JNull = False"
| "truthy (JBool b) = b"
| "truthy (JNum n) = (n \<noteq> 0)"
| "truthy (JStr s) = (s \<noteq> [])"
| "truthy (JObj ps) = True"

subsection \<open>Property keys and their enumeration order\<close>

definition isDigit :: "char \<Rightarrow> bool" where
  "isDigit c = (48 \<le> (of_char c :: nat) \<and> (of_char c :: nat) \<le> 57)"

definition digitValue :: "char \<Rightarrow> int" where
  "digitValue c = (of_char c :: int) - 48"

definition decimalValue :: "string \<Rightarrow> int" where
  "decimalValue s = foldl (\<lambda>acc c. 10 * acc + digitValue c) 0 s"

text \<open>
  An array index is a canonical numeric string (decimal digits, no leading zero unless
  the string is \<^verbatim>\<open>0\<close>) whose value is at most \<open>2^32 - 2\<close>.
\<close>

definition isArrayIndex :: "string \<Rightarrow> bool" where
  "isArrayIndex s =
     (s \<noteq> [] \<and> list_all isDigit s \<and> (if hd s = CHR ''0'' then s = ''0'' else True)
      \<and> decimalValue s \<le> 4294967294)"

text \<open>
  OrdinaryOwnPropertyKeys: the array-index keys in ascending numeric order, then the
  other string keys in the order of their creation. \<open>Object.keys\<close> and
  \<open>Object.entries\<close> both enumerate in this order.
\<close>

definition ownProperties :: "(string \<times> jsval) list \<Rightarrow> (string \<times> jsval) list" where
  "ownProperties ps =
     sort_key (\<lambda>p. decimalValue (fst p)) (filter (\<lambda>p. isArrayIndex (fst p)) ps)
     @ filter (\<lambda>p. \<not> isArrayIndex (fst p)) ps"

function digitsOf :: "nat \<Rightarrow> string" where
  "digitsOf n =
     (if n < 10 then [char_of (48 + n)]
      else digitsOf (n div 10) @ [char_of (48 + n mod 10)])"
  by pat_completeness auto
termination
  by (relation "measure id") auto

text \<open>The indexed characters of a primitive string, as \<open>Object.entries\<close> sees them.\<close>

definition stringEntries :: "string \<Rightarrow> (string \<times> jsval) list" where
  "stringEntries s = map (\<lambda>i. (digitsOf i, JStr [s ! i])) [0..<length s]"

text \<open>
  \<open>Object.entries(v)\<close>: ToObject throws on \<open>undefined\<close> and \<open>null\<close>; a boolean or a
  number wraps into an object without own properties; a string has its indices.
\<close>

fun Object_entries :: "jsval \<Rightarrow> error + (string \<times> jsval) list" where
  "Object_entries JUndefined = Inl TypeError"
| "Object_entries JNull = Inl TypeError"
| "Object_entries (JBool b) = Inr []"
| "Object_entries (JNum n) = Inr []"
| "Object_entries (JStr s) = Inr (stringEntries s)"
| "Object_entries (JObj ps) = Inr (ownProperties ps)"

definition Object_keys :: "jsval \<Rightarrow> error + string list" where
  "Object_keys v =
     (case Object_entries v of Inl e \<Rightarrow> Inl e | Inr es \<Rightarrow> Inr (map fst es))"

text \<open>
  Reading a property with optional chaining, \<open>v?.k\<close>: \<open>undefined\<close> when \<open>v\<close> is
  \<open>undefined\<close> or \<open>null\<close>; on an object the own property or \<open>undefined\<close>; on a
  boolean, number or string \<open>undefined\<close> for every name this module reads (\<open>type\<close>,
  \<open>scheme\<close>, \<open>flows\<close>, \<open>withMcpcat\<close>, \<open>withOtel\<close>: none is defined on a prototype).
  The plain reads \<open>scheme.type\<close>, \<open>scheme.scheme\<close> and \<open>scheme.flows\<close> happen after the
  \<open>in\<close> test, which only an object passes, so there \<open>v.k\<close> and \<open>v?.k\<close> agree.
\<close>

fun getPropOpt :: "jsval \<Rightarrow> string \<Rightarrow> jsval" where
  "getPropOpt (JObj ps) k = (case map_of ps k of None \<Rightarrow> JUndefined | Some v \<Rightarrow> v)"
| "getPropOpt v k = JUndefined"

text \<open>The operator \<open>k in v\<close> throws unless \<open>v\<close> is an object.\<close>

fun hasProperty :: "string \<Rightarrow> jsval \<Rightarrow> error + bool" where
  "hasProperty k (JObj ps) = Inr (k \<in> set (map fst ps))"
| "hasProperty k v = Inl TypeError"

subsection \<open>String operations\<close>

definition isAlnum :: "char \<Rightarrow> bool" where
  "isAlnum c =
     (let n = (of_char c :: nat)
      in (97 \<le> n \<and> n \<le> 122) \<or> (65 \<le> n \<and> n \<le> 90) \<or> (48 \<le> n \<and> n \<le> 57))"

text \<open>\<open>name.replace(/[^a-zA-Z0-9]/g, '_')\<close>\<close>

definition replaceNonAlnum :: "string \<Rightarrow> string" where
  "replaceNonAlnum s = map (\<lambda>c. if isAlnum c then c else CHR ''_'') s"

definition upperChar :: "char \<Rightarrow> char" where
  "upperChar c =
     (let n = (of_char c :: nat) in if 97 \<le> n \<and> n \<le> 122 then char_of (n - 32) else c)"

definition lowerChar :: "char \<Rightarrow> char" where
  "lowerChar c =
     (let n = (of_char c :: nat) in if 65 \<le> n \<and> n \<le> 90 then char_of (n + 32) else c)"

text \<open>
  \<open>toUpperCase\<close> is applied to the result of \<open>replaceNonAlnum\<close> only, where every
  character is an ASCII letter, a digit or an underscore. \<open>toLowerCase\<close> is applied to
  the \<open>scheme\<close> field and its result is compared with \<^verbatim>\<open>bearer\<close> and \<^verbatim>\<open>basic\<close>:
  JavaScript also maps letters outside ASCII, but never to a letter of these two words,
  so the comparisons are decided by the ASCII letters.
\<close>

definition toUpperCase :: "string \<Rightarrow> string" where
  "toUpperCase s = map upperChar s"

definition toLowerCase :: "string \<Rightarrow> string" where
  "toLowerCase s = map lowerChar s"

text \<open>\<open>Array.prototype.join\<close> on strings.\<close>

fun join :: "string \<Rightarrow> string list \<Rightarrow> string" where
  "join sep [] = []"
| "join sep [x] = x"
| "join sep (x # y # ys) = x @ sep @ join sep (y # ys)"

text \<open>
  \<open>scheme.scheme?.toLowerCase()\<close>: \<open>undefined\<close> when the field is \<open>undefined\<close> or
  \<open>null\<close>, the lower-cased text when it is a string; any other value has no
  \<open>toLowerCase\<close> method and the call throws.
\<close>

fun schemeLower :: "jsval \<Rightarrow> error + jsval" where
  "schemeLower JUndefined = Inr JUndefined"
| "schemeLower JNull = Inr JUndefined"
| "schemeLower (JStr s) = Inr (JStr (toLowerCase s))"
| "schemeLower v = Inl TypeError"

subsection \<open>generateEnvExample\<close>

text \<open>
  \<open>getEnvVarName\<close> is imported from another module; it is a parameter of the model,
  a function from the scheme name and a suffix to the variable name.
\<close>

type_synonym resolver = "string \<Rightarrow> string \<Rightarrow> string"

definition preamble :: string where
  "preamble =
     ''# MCP Server Environment Variables\<newline># Copy this file to .env and fill in the values\<newline>\<newline># Server configuration\<newline>PORT=3000\<newline>LOG_LEVEL=info\<newline>\<newline>''"

definition authHeader :: string where
  "authHeader = ''# API Authentication\<newline>''"

definition noAuthLine :: string where
  "noAuthLine = ''# No API authentication required\<newline>''"

definition mcpcatBlock :: string where
  "mcpcatBlock =
     ''\<newline># MCPcat -- MCP product analytics and live debugging tools''
     @ ''\<newline># Sign up and get your project ID for free at https://mcpcat.io\<newline>''
     @ ''MCPCAT_PROJECT_ID=proj_0000000  # Replace with your MCPcat project ID\<newline>''"

definition otelBlock :: string where
  "otelBlock =
     ''\<newline># OpenTelemetry Configuration for logging and traces\<newline>''
     @ ''OTLP_ENDPOINT=http://localhost:4318/v1/traces  # OTLP collector endpoint\<newline>''"

definition footer :: string where
  "footer = ''\<newline># Add any other environment variables your API might need\<newline>''"

text \<open>
  The flow names of the OAuth2 comment line,
  \<open>scheme.flows ? Object.keys(scheme.flows).join(', ') : 'unknown'\<close>.
\<close>

definition flowNames :: "jsval \<Rightarrow> error + string" where
  "flowNames flows =
     (if truthy flows
      then (case Object_keys flows of Inl e \<Rightarrow> Inl e | Inr ks \<Rightarrow> Inr (join '', '' ks))
      else Inr ''unknown'')"

text \<open>
  One iteration of the loop over the entries: the new value of \<open>content\<close>, or the
  exception that ends the call.
\<close>

definition schemeStep :: "resolver \<Rightarrow> string \<Rightarrow> jsval \<Rightarrow> string \<Rightarrow> error + string" where
  "schemeStep getEnvVarName name schemeOrRef content =
     (case hasProperty ''$ref'' schemeOrRef of
        Inl e \<Rightarrow> Inl e
      | Inr True \<Rightarrow>
          Inr (content @ ''# '' @ name
               @ '' - Referenced security scheme (reference not resolved)\<newline>'')
      | Inr False \<Rightarrow>
          (let scheme = schemeOrRef; ty = getPropOpt scheme ''type'' in
           if ty = JStr ''apiKey'' then
             (let varName = getEnvVarName name ''API_KEY''
              in Inr (content @ varName @ ''=your_api_key_here\<newline>''))
           else if ty = JStr ''http'' then
             (case schemeLower (getPropOpt scheme ''scheme'') of
                Inl e \<Rightarrow> Inl e
              | Inr l \<Rightarrow>
                  if l = JStr ''bearer'' then
                    (let varName = getEnvVarName name ''BEARER_TOKEN''
                     in Inr (content @ varName @ ''=your_bearer_token_here\<newline>''))
                  else if l = JStr ''basic'' then
                    (let usernameVar = getEnvVarName name ''BASIC_USERNAME'';
                         passwordVar = getEnvVarName name ''BASIC_PASSWORD'';
                         content = content @ usernameVar @ ''=your_username_here\<newline>''
                     in Inr (content @ passwordVar @ ''=your_password_here\<newline>''))
                  else Inr content)
           else if ty = JStr ''oauth2'' then
             (case flowNames (getPropOpt scheme ''flows'') of
                Inl e \<Rightarrow> Inl e
              | Inr names \<Rightarrow>
                  (let content = content @ ''# OAuth2 authentication ('' @ names
                                   @ '' flow)\<newline>'';
                       varName = ''OAUTH_TOKEN_'' @ toUpperCase (replaceNonAlnum name)
                   in Inr (content @ varName @ ''=your_oauth_token_here\<newline>'')))
           else Inr content))"

text \<open>The loop \<open>for (const [name, schemeOrRef] of Object.entries(securitySchemes))\<close>.\<close>

fun schemeLoop :: "resolver \<Rightarrow> (string \<times> jsval) list \<Rightarrow> string \<Rightarrow> error + string" where
  "schemeLoop getEnvVarName [] content = Inr content"
| "schemeLoop getEnvVarName ((name, schemeOrRef) # rest) content =
     (case schemeStep getEnvVarName name schemeOrRef content of
        Inl e \<Rightarrow> Inl e
      | Inr content' \<Rightarrow> schemeLoop getEnvVarName rest content')"

text \<open>
  The authentication section: the test
  \<open>securitySchemes && Object.keys(securitySchemes).length > 0\<close> and its two branches.
\<close>

definition authSection :: "resolver \<Rightarrow> jsval \<Rightarrow> string \<Rightarrow> error + string" where
  "authSection getEnvVarName securitySchemes content =
     (if truthy securitySchemes then
        (case Object_keys securitySchemes of
           Inl e \<Rightarrow> Inl e
         | Inr ks \<Rightarrow>
             if length ks > 0 then
               (case Object_entries securitySchemes of
                  Inl e \<Rightarrow> Inl e
                | Inr es \<Rightarrow> schemeLoop getEnvVarName es (content @ authHeader))
             else Inr (content @ noAuthLine))
      else Inr (content @ noAuthLine))"

definition generateEnvExample :: "resolver \<Rightarrow> jsval \<Rightarrow> jsval \<Rightarrow> error + string" where
  "generateEnvExample getEnvVarName securitySchemes options =
     (case authSection getEnvVarName securitySchemes preamble of
        Inl e \<Rightarrow> Inl e
      | Inr content \<Rightarrow>
          (let content =
                 (if truthy (getPropOpt options ''withMcpcat'')
                  then content @ mcpcatBlock else content);
               content =
                 (if truthy (getPropOpt options ''withOtel'')
                  then content @ otelBlock else content)
           in Inr (content @ footer)))"

subsection \<open>generateDotenvConfig\<close>

definition generateDotenvConfig :: "unit \<Rightarrow> string" where
  "generateDotenvConfig u =
     ''\<newline>/**\<newline> * Load environment variables from .env file\<newline> */\<newline>''
     @ ''import dotenv from 'dotenv';\<newline>''
     @ ''import path from 'path';\<newline>''
     @ ''import { fileURLToPath } from 'url';\<newline>''
     @ ''\<newline>''
     @ ''const __filename = fileURLToPath(import.meta.url);\<newline>''
     @ ''const __dirname = path.dirname(__filename);\<newline>''
     @ ''\<newline>''
     @ ''// Load environment variables from .env file\<newline>''
     @ ''const result = dotenv.config({ path: path.resolve(__dirname, '../.env') });\<newline>''
     @ ''\<newline>''
     @ ''if (result.error) {\<newline>''
     @ ''  console.warn('Warning: No .env file found or error loading .env file.');\<newline>''
     @ ''  console.warn('Using default environment variables.');\<newline>''
     @ ''}\<newline>''
     @ ''\<newline>''
     @ ''export const config = {\<newline>''
     @ ''  port: process.env.PORT || '3000',\<newline>''
     @ ''  logLevel: process.env.LOG_LEVEL || 'info',\<newline>''
     @ ''};\<newline>''"

subsection \<open>Notions used to state the properties\<close>

text \<open>The optional blocks that follow the authentication section.\<close>

definition featureBlocks :: "jsval \<Rightarrow> string" where
  "featureBlocks options =
     (if truthy (getPropOpt options ''withMcpcat'') then mcpcatBlock else [])
     @ (if truthy (getPropOpt options ''withOtel'') then otelBlock else [])"

text \<open>
  The artifact for a non-empty mapping in which one entry, standing between the entries
  \<open>before\<close> and \<open>after\<close>, contributes exactly the text \<open>t\<close>: the fixed preamble, the
  section header, what the earlier entries produce, \<open>t\<close>, what the later entries
  produce, the optional blocks and the closing comment. An exception raised by
  another entry ends the call.
\<close>

definition aroundEntry ::
  "resolver \<Rightarrow> (string \<times> jsval) list \<Rightarrow> string \<Rightarrow> (string \<times> jsval) list \<Rightarrow> jsval
     \<Rightarrow> error + string" where
  "aroundEntry r before t after options =
     (case schemeLoop r before [] of
        Inl e \<Rightarrow> Inl e
      | Inr tb \<Rightarrow>
          (case schemeLoop r after [] of
             Inl e \<Rightarrow> Inl e
           | Inr ta \<Rightarrow>
               Inr (preamble @ authHeader @ tb @ t @ ta @ featureBlocks options @ footer)))"

text \<open>
  The two forms of an entry: a Reference carries a \<open>$ref\<close> property; a Definition is
  an object without one, and its kind is the value of its \<open>type\<close> property.
\<close>

definition isReference :: "jsval \<Rightarrow> bool" where
  "isReference v = (hasProperty ''$ref'' v = Inr True)"

definition isDefinitionOfKind :: "string \<Rightarrow> jsval \<Rightarrow> bool" where
  "isDefinitionOfKind kind v =
     (hasProperty ''$ref'' v = Inr False \<and> getPropOpt v ''type'' = JStr kind)"

text \<open>
  A resolver to run the generator on concrete inputs; any function of the two
  arguments would do.
\<close>

definition sampleResolver :: resolver where
  "sampleResolver name suffix = suffix @ ''_'' @ name"

text \<open>The lines of a text, split at the newline characters.\<close>

fun splitFrom :: "string \<Rightarrow> string \<Rightarrow> string list" where
  "splitFrom cur [] = [cur]"
| "splitFrom cur (c # cs) =
     (if c = CHR ''\<newline>'' then cur # splitFrom [] cs else splitFrom (cur @ [c]) cs)"

definition splitLines :: "string \<Rightarrow> string list" where
  "splitLines s = splitFrom [] s"

definition hasLine :: "string \<Rightarrow> string \<Rightarrow> bool" where
  "hasLine l s = (l \<in> set (splitLines s))"

text \<open>
  The variable name with the two operations in the other order: the scheme name is
  upper-cased first and the characters outside \<open>[A-Za-z0-9]\<close> are replaced afterwards.
  Here \<open>toUpperCase\<close> meets the name as it is, so it is given for every code unit
  below 256, with the resulting code units as numbers: the sharp s (223) becomes two
  letters \<open>S\<close>, the micro sign (181) and the y with diaeresis (255) leave the range,
  the other small letters move down by 32.
\<close>

definition upperCaseUnits :: "char \<Rightarrow> int list" where
  "upperCaseUnits c =
     (let n = (of_char c :: int) in
      if 97 \<le> n \<and> n \<le> 122 then [n - 32]
      else if n = 223 then [83, 83]
      else if n = 181 then [924]
      else if n = 255 then [376]
      else if 224 \<le> n \<and> n \<le> 254 \<and> n \<noteq> 247 then [n - 32]
      else [n])"

definition replaceUnit :: "int \<Rightarrow> char" where
  "replaceUnit n =
     (if (97 \<le> n \<and> n \<le> 122) \<or> (65 \<le> n \<and> n \<le> 90) \<or> (48 \<le> n \<and> n \<le> 57)
      then char_of n else CHR ''_'')"

definition upperCaseThenReplace :: "string \<Rightarrow> string" where
  "upperCaseThenReplace name = map replaceUnit (concat (map upperCaseUnits name))"

text \<open>
  The first two sections of the artifact, which the options do not reach: the preamble
  and the authentication section.
\<close>

definition headAndAuth :: "resolver \<Rightarrow> jsval \<Rightarrow> error + string" where
  "headAndAuth r securitySchemes = authSection r securitySchemes preamble"

text \<open>
  The entries on which one iteration of the loop completes: the entry is an object, and
  when it is a definition of kind \<open>http\<close> its \<open>scheme\<close> field is a string or is
  absent. The declared parameter type admits only such entries.
\<close>

fun stringOrAbsent :: "jsval \<Rightarrow> bool" where
  "stringOrAbsent JUndefined = True"
| "stringOrAbsent JNull = True"
| "stringOrAbsent (JStr s) = True"
| "stringOrAbsent v = False"

definition entryAccepted :: "jsval \<Rightarrow> bool" where
  "entryAccepted v =
     (case hasProperty ''$ref'' v of
        Inl e \<Rightarrow> False
      | Inr True \<Rightarrow> True
      | Inr False \<Rightarrow>
          (if getPropOpt v ''type'' = JStr ''http''
           then stringOrAbsent (getPropOpt v ''scheme'') else True))"

text \<open>The entries that the loop visits; none when \<open>Object.entries\<close> is not reached.\<close>

definition entriesOf :: "jsval \<Rightarrow> (string \<times> jsval) list" where
  "entriesOf v = (case Object_entries v of Inl e \<Rightarrow> [] | Inr es \<Rightarrow> es)"

subsection \<open>Example inputs\<close>

definition exOAuth :: jsval where
  "exOAuth = JObj [(''type'', JStr ''oauth2''),
     (''flows'', JObj [(''authorizationCode'', JObj [(''scopes'', JObj [])]),
                      (''clientCredentials'', JObj [(''scopes'', JObj [])])])]"

definition exOAuthNoFlows :: jsval where
  "exOAuthNoFlows = JObj [(''type'', JStr ''oauth2'')]"

definition exOAuthEmptyFlows :: jsval where
  "exOAuthEmptyFlows = JObj [(''type'', JStr ''oauth2''), (''flows'', JObj [])]"

text \<open>The scheme name \<^verbatim>\<open>stra\<close>, sharp s, \<^verbatim>\<open>e\<close>.\<close>

definition exSharpS :: string where
  "exSharpS = ''stra'' @ [CHR 0xDF] @ ''e''"

definition exBearer :: jsval where
  "exBearer = JObj [(''type'', JStr ''http''), (''scheme'', JStr ''Bearer''),
                    (''bearerFormat'', JStr ''JWT'')]"

definition exBasic :: jsval where
  "exBasic = JObj [(''type'', JStr ''http''), (''scheme'', JStr ''BASIC'')]"

definition exDigest :: jsval where
  "exDigest = JObj [(''type'', JStr ''http''), (''scheme'', JStr ''digest'')]"

definition exHttpNoScheme :: jsval where
  "exHttpNoScheme = JObj [(''type'', JStr ''http'')]"

definition optsOff :: jsval where
  "optsOff = JObj [(''withMcpcat'', JBool False), (''withOtel'', JBool False)]"

definition optsMcpcat :: jsval where
  "optsMcpcat = JObj [(''withMcpcat'', JBool True), (''withOtel'', JBool False)]"

definition optsOtel :: jsval where
  "optsOtel = JObj [(''withMcpcat'', JBool False), (''withOtel'', JBool True)]"

definition optsBoth :: jsval where
  "optsBoth = JObj [(''withMcpcat'', JBool True), (''withOtel'', JBool True)]"

definition exSchemes :: jsval where
  "exSchemes = JObj [(''key'', JObj [(''type'', JStr ''apiKey'')]), (''basicAuth'', exBasic),
                     (''oauth'', exOAuthNoFlows)]"

definition exOpenId :: jsval where
  "exOpenId = JObj [(''type'', JStr ''openIdConnect''),
     (''openIdConnectUrl'', JStr ''https://example.com/.well-known/openid-configuration'')]"

definition exNumbered :: jsval where
  "exNumbered = JObj [(''legacy'', JObj [(''type'', JStr ''apiKey'')]),
                      (''2'', JObj [(''type'', JStr ''apiKey'')]),
                      (''1'', JObj [(''type'', JStr ''apiKey'')])]"

section \<open>Properties\<close>

subsection \<open>The flow names never raise\<close>

lemma flowNames_object:
  "flowNames (JObj fs) = Inr (join '', '' (map fst (ownProperties fs)))"
  by (simp add: flowNames_def Object_keys_def)

lemma flowNames_falsy:
  "\<not> truthy flows \<Longrightarrow> flowNames flows = Inr ''unknown''"
  by (simp add: flowNames_def)

lemma flowNames_returns:
  "\<exists>names. flowNames flows = Inr names"
  by (cases flows) (simp_all add: flowNames_def Object_keys_def)

subsection \<open>The loop appends to the content and nothing else\<close>

lemma schemeStep_content:
  "schemeStep r name v content =
     (case schemeStep r name v [] of Inl e \<Rightarrow> Inl e | Inr t \<Rightarrow> Inr (content @ t))"
  by (cases "hasProperty ''$ref'' v")
     (auto simp: schemeStep_def Let_def split: sum.splits bool.splits)

lemma schemeLoop_content:
  "schemeLoop r es content =
     (case schemeLoop r es [] of Inl e \<Rightarrow> Inl e | Inr t \<Rightarrow> Inr (content @ t))"
proof (induction es arbitrary: content)
  case Nil
  show ?case by simp
next
  case (Cons p es)
  obtain name v where p: "p = (name, v)" by (cases p)
  show ?case
  proof (cases "schemeStep r name v []")
    case (Inl e)
    then show ?thesis using p schemeStep_content [of r name v content] by simp
  next
    case (Inr t)
    then have "schemeStep r name v content = Inr (content @ t)"
      using schemeStep_content [of r name v content] by simp
    then show ?thesis
      using p Inr Cons.IH [of "content @ t"] Cons.IH [of t]
      by (simp split: sum.splits)
  qed
qed

lemma schemeLoop_append:
  "schemeLoop r (es @ fs) content =
     (case schemeLoop r es content of Inl e \<Rightarrow> Inl e | Inr c \<Rightarrow> schemeLoop r fs c)"
  by (induction es arbitrary: content) (auto split: sum.splits)

lemma schemeLoop_at:
  "schemeLoop r (before @ (name, v) # after) [] =
     (case schemeLoop r before [] of
        Inl e \<Rightarrow> Inl e
      | Inr tb \<Rightarrow>
          (case schemeStep r name v [] of
             Inl e \<Rightarrow> Inl e
           | Inr t \<Rightarrow>
               (case schemeLoop r after [] of
                  Inl e \<Rightarrow> Inl e
                | Inr ta \<Rightarrow> Inr (tb @ t @ ta))))"
proof (cases "schemeLoop r before []")
  case (Inl e)
  then show ?thesis by (simp add: schemeLoop_append)
next
  case tb: (Inr tb)
  show ?thesis
  proof (cases "schemeStep r name v []")
    case (Inl e)
    then show ?thesis
      using tb schemeStep_content [of r name v tb] by (simp add: schemeLoop_append)
  next
    case t: (Inr t)
    then have "schemeStep r name v tb = Inr (tb @ t)"
      using schemeStep_content [of r name v tb] by simp
    then show ?thesis
      using tb t schemeLoop_content [of r after "tb @ t"]
      by (simp add: schemeLoop_append split: sum.splits)
  qed
qed

subsection \<open>The two branches of the authentication section\<close>

lemma entries_nonempty_truthy:
  "Object_entries v = Inr es \<Longrightarrow> es \<noteq> [] \<Longrightarrow> truthy v"
  by (cases v) (auto simp: stringEntries_def)

lemma generateEnvExample_nonempty:
  assumes "Object_entries ss = Inr es" and "es \<noteq> []"
  shows "generateEnvExample r ss options =
     (case schemeLoop r es [] of
        Inl e \<Rightarrow> Inl e
      | Inr t \<Rightarrow> Inr (preamble @ authHeader @ t @ featureBlocks options @ footer))"
proof -
  have "truthy ss" using assms by (rule entries_nonempty_truthy)
  then have "authSection r ss preamble = schemeLoop r es (preamble @ authHeader)"
    using assms by (simp add: authSection_def Object_keys_def)
  then show ?thesis
    using schemeLoop_content [of r es "preamble @ authHeader"]
    by (simp add: generateEnvExample_def featureBlocks_def Let_def split: sum.splits)
qed

lemma generateEnvExample_empty:
  assumes "\<not> truthy ss \<or> Object_entries ss = Inr []"
  shows "generateEnvExample r ss options =
           Inr (preamble @ noAuthLine @ featureBlocks options @ footer)"
proof -
  have "authSection r ss preamble = Inr (preamble @ noAuthLine)"
    using assms by (auto simp: authSection_def Object_keys_def)
  then show ?thesis
    by (simp add: generateEnvExample_def featureBlocks_def Let_def)
qed

text \<open>What one entry contributes, whatever stands around it.\<close>

lemma generateEnvExample_at_entry:
  assumes "Object_entries ss = Inr (before @ (name, v) # after)"
      and "schemeStep r name v [] = Inr t"
  shows "generateEnvExample r ss options = aroundEntry r before t after options"
  using assms generateEnvExample_nonempty [of ss "before @ (name, v) # after" r options]
  by (simp add: schemeLoop_at aroundEntry_def split: sum.splits)

subsection \<open>API key schemes\<close>

text \<open>
  Claim C4. An entry whose definition has kind \<open>apiKey\<close> contributes exactly one
  line to the artifact: the name that the resolver returns for the scheme name and the
  suffix \<open>API_KEY\<close>, followed by \<open>=your_api_key_here\<close>.
\<close>

theorem apiKey_declaration:
  assumes "Object_entries securitySchemes = Inr (before @ (name, v) # after)"
      and "isDefinitionOfKind ''apiKey'' v"
  shows "generateEnvExample r securitySchemes options =
           aroundEntry r before (r name ''API_KEY'' @ ''=your_api_key_here\<newline>'') after options"
proof -
  have "schemeStep r name v [] = Inr (r name ''API_KEY'' @ ''=your_api_key_here\<newline>'')"
    using assms(2) by (simp add: isDefinitionOfKind_def schemeStep_def)
  with assms(1) show ?thesis by (rule generateEnvExample_at_entry)
qed

theorem apiKey_declaration_witness:
  "Object_entries (JObj [(''x-api-key'',
       JObj [(''type'', JStr ''apiKey''), (''in'', JStr ''header''), (''name'', JStr ''X-API-Key'')])])
     = Inr ([] @ (''x-api-key'',
       JObj [(''type'', JStr ''apiKey''), (''in'', JStr ''header''), (''name'', JStr ''X-API-Key'')]) # [])
   \<and> isDefinitionOfKind ''apiKey''
       (JObj [(''type'', JStr ''apiKey''), (''in'', JStr ''header''), (''name'', JStr ''X-API-Key'')])
   \<and> generateEnvExample sampleResolver (JObj [(''x-api-key'',
       JObj [(''type'', JStr ''apiKey''), (''in'', JStr ''header''), (''name'', JStr ''X-API-Key'')])])
       JUndefined
     = Inr (preamble @ ''# API Authentication\<newline>API_KEY_x-api-key=your_api_key_here\<newline>'' @ footer)"
proof -
  let ?v = "JObj [(''type'', JStr ''apiKey''), (''in'', JStr ''header''), (''name'', JStr ''X-API-Key'')]"
  have h1: "Object_entries (JObj [(''x-api-key'', ?v)]) = Inr ([] @ (''x-api-key'', ?v) # [])"
    by (simp add: ownProperties_def isArrayIndex_def isDigit_def)
  have h2: "isDefinitionOfKind ''apiKey'' ?v"
    by (simp add: isDefinitionOfKind_def)
  show ?thesis
    using h1 h2 apiKey_declaration [OF h1 h2, of sampleResolver JUndefined]
    by (simp add: aroundEntry_def featureBlocks_def authHeader_def sampleResolver_def)
qed

subsection \<open>References\<close>

text \<open>
  Claim C6. An entry that carries a \<open>$ref\<close> contributes exactly one comment line,
  \<open># <name> - Referenced security scheme (reference not resolved)\<close>, and no
  declaration; the text does not depend on what the entry or the reference contains,
  nor on the resolver, which is not called for it.
\<close>

theorem reference_comment:
  assumes "Object_entries securitySchemes = Inr (before @ (name, v) # after)"
      and "isReference v"
  shows "generateEnvExample r securitySchemes options =
           aroundEntry r before
             (''# '' @ name @ '' - Referenced security scheme (reference not resolved)\<newline>'')
             after options
         \<and> schemeStep r name v content = schemeStep r' name v content"
proof -
  have step: "schemeStep q name v c =
      Inr (c @ ''# '' @ name @ '' - Referenced security scheme (reference not resolved)\<newline>'')"
    for q c
    using assms(2) by (simp add: isReference_def schemeStep_def)
  have "generateEnvExample r securitySchemes options =
           aroundEntry r before
             (''# '' @ name @ '' - Referenced security scheme (reference not resolved)\<newline>'')
             after options"
    using assms(1) step [of r "[]"] by (simp add: generateEnvExample_at_entry)
  then show ?thesis by (simp add: step)
qed

theorem reference_comment_witness:
  "Object_entries (JObj [(''shared'', JObj [(''$ref'', JStr ''#/components/securitySchemes/other'')])])
     = Inr ([] @ (''shared'', JObj [(''$ref'', JStr ''#/components/securitySchemes/other'')]) # [])
   \<and> isReference (JObj [(''$ref'', JStr ''#/components/securitySchemes/other'')])
   \<and> generateEnvExample sampleResolver
         (JObj [(''shared'', JObj [(''$ref'', JStr ''#/components/securitySchemes/other'')])])
         JUndefined
     = Inr (preamble @ ''# API Authentication\<newline>''
            @ ''# shared - Referenced security scheme (reference not resolved)\<newline>'' @ footer)"
proof -
  let ?v = "JObj [(''$ref'', JStr ''#/components/securitySchemes/other'')]"
  have h1: "Object_entries (JObj [(''shared'', ?v)]) = Inr ([] @ (''shared'', ?v) # [])"
    by (simp add: ownProperties_def isArrayIndex_def isDigit_def)
  have h2: "isReference ?v"
    by (simp add: isReference_def)
  show ?thesis
    using h1 h2 reference_comment [OF h1 h2, of sampleResolver JUndefined]
    by (simp add: aroundEntry_def featureBlocks_def authHeader_def)
qed

subsection \<open>OAuth2 schemes\<close>

lemma schemeStep_oauth2:
  assumes "isDefinitionOfKind ''oauth2'' v"
      and "flowNames (getPropOpt v ''flows'') = Inr names"
  shows "schemeStep r name v content =
           Inr (content @ ''# OAuth2 authentication ('' @ names
                @ '' flow)\<newline>'' @ ''OAUTH_TOKEN_'' @ toUpperCase (replaceNonAlnum name)
                @ ''=your_oauth_token_here\<newline>'')"
  using assms by (simp add: isDefinitionOfKind_def schemeStep_def)

text \<open>On a name of ASCII characters the order of the two operations does not matter.\<close>

lemma upperCaseThenReplace_char:
  assumes "(of_char c :: nat) < 128"
  shows "map replaceUnit (upperCaseUnits c) = [upperChar (if isAlnum c then c else CHR ''_'')]"
proof -
  define m where "m = (of_char c :: nat)"
  have n: "(of_char c :: int) = int m"
    by (simp add: m_def of_nat_of_char)
  have c: "char_of m = c"
    by (simp add: m_def)
  have us: "upperChar (CHR ''_'') = CHR ''_''"
    by code_simp
  consider (lower) "97 \<le> m \<and> m \<le> 122" | (keep) "(65 \<le> m \<and> m \<le> 90) \<or> (48 \<le> m \<and> m \<le> 57)"
    | (other) "\<not> (97 \<le> m \<and> m \<le> 122) \<and> \<not> (65 \<le> m \<and> m \<le> 90) \<and> \<not> (48 \<le> m \<and> m \<le> 57)"
    by linarith
  then show ?thesis
  proof cases
    case lower
    then have "int m - 32 = int (m - 32)" by simp
    then have "char_of (int m - 32) = char_of (int (m - 32))" by (rule arg_cong)
    then have e: "char_of (int m - 32) = char_of (m - 32)" by (simp only: char_of_nat)
    from lower show ?thesis
      by (simp add: upperCaseUnits_def replaceUnit_def upperChar_def isAlnum_def n e
          flip: m_def)
  next
    case keep
    then show ?thesis
      using c by (auto simp: upperCaseUnits_def replaceUnit_def upperChar_def isAlnum_def n
          Let_def simp flip: m_def)
  next
    case other
    with assms show ?thesis
      by (auto simp: upperCaseUnits_def replaceUnit_def isAlnum_def n us Let_def
          simp flip: m_def)
  qed
qed

lemma upperCaseThenReplace_ascii:
  assumes "\<forall>c \<in> set name. (of_char c :: nat) < 128"
  shows "upperCaseThenReplace name = toUpperCase (replaceNonAlnum name)"
  using assms
  by (induction name)
     (simp_all add: upperCaseThenReplace_def toUpperCase_def replaceNonAlnum_def
        upperCaseThenReplace_char)

text \<open>
  Claim C2, as the code has it. An entry whose definition has kind \<open>oauth2\<close>
  contributes exactly two lines. The first is a comment that names the keys of its
  \<open>flows\<close> object joined by a comma and a space: nothing stands between the brackets
  when the object has no key, and the word \<open>unknown\<close> stands there only when the
  \<open>flows\<close> field is absent or falsy. The second is the declaration of
  \<open>OAUTH_TOKEN_\<close> followed by the scheme name in which first every character outside
  \<open>[A-Za-z0-9]\<close> is replaced by an underscore and then the letters are put in upper
  case, with the placeholder \<open>your_oauth_token_here\<close>. The resolver has no part in it.
\<close>

theorem oauth2_lines:
  assumes "Object_entries securitySchemes = Inr (before @ (name, v) # after)"
      and "isDefinitionOfKind ''oauth2'' v"
  shows "(\<forall>fs. getPropOpt v ''flows'' = JObj fs \<longrightarrow>
            generateEnvExample r securitySchemes options =
              aroundEntry r before
                (''# OAuth2 authentication ('' @ join '', '' (map fst (ownProperties fs))
                 @ '' flow)\<newline>'' @ ''OAUTH_TOKEN_'' @ toUpperCase (replaceNonAlnum name)
                 @ ''=your_oauth_token_here\<newline>'')
                after options)
       \<and> (\<not> truthy (getPropOpt v ''flows'') \<longrightarrow>
            generateEnvExample r securitySchemes options =
              aroundEntry r before
                (''# OAuth2 authentication (unknown flow)\<newline>''
                 @ ''OAUTH_TOKEN_'' @ toUpperCase (replaceNonAlnum name)
                 @ ''=your_oauth_token_here\<newline>'')
                after options)
       \<and> schemeStep r name v content = schemeStep r' name v content"
proof -
  have gen: "generateEnvExample r securitySchemes options =
      aroundEntry r before
        (''# OAuth2 authentication ('' @ names
         @ '' flow)\<newline>'' @ ''OAUTH_TOKEN_'' @ toUpperCase (replaceNonAlnum name)
         @ ''=your_oauth_token_here\<newline>'')
        after options"
    if "flowNames (getPropOpt v ''flows'') = Inr names" for names
    using assms(1) schemeStep_oauth2 [OF assms(2) that, of r name "[]"]
    by (simp add: generateEnvExample_at_entry)
  obtain names where names: "flowNames (getPropOpt v ''flows'') = Inr names"
    using flowNames_returns by blast
  have indep: "schemeStep r name v content = schemeStep r' name v content"
    by (simp add: schemeStep_oauth2 [OF assms(2) names])
  show ?thesis
    using gen flowNames_object flowNames_falsy indep by simp
qed

theorem oauth2_lines_witness:
  "Object_entries (JObj [(''my-oauth.v2'', exOAuth)]) = Inr ([] @ (''my-oauth.v2'', exOAuth) # [])
   \<and> isDefinitionOfKind ''oauth2'' exOAuth
   \<and> getPropOpt exOAuth ''flows'' =
       JObj [(''authorizationCode'', JObj [(''scopes'', JObj [])]),
             (''clientCredentials'', JObj [(''scopes'', JObj [])])]
   \<and> generateEnvExample sampleResolver (JObj [(''my-oauth.v2'', exOAuth)]) JUndefined
     = Inr (preamble @ ''# API Authentication\<newline>''
            @ ''# OAuth2 authentication (authorizationCode, clientCredentials flow)\<newline>''
            @ ''OAUTH_TOKEN_MY_OAUTH_V2=your_oauth_token_here\<newline>'' @ footer)
   \<and> Object_entries (JObj [(''petstore_auth'', exOAuthNoFlows)])
       = Inr ([] @ (''petstore_auth'', exOAuthNoFlows) # [])
   \<and> isDefinitionOfKind ''oauth2'' exOAuthNoFlows
   \<and> getPropOpt exOAuthNoFlows ''flows'' = JUndefined
   \<and> generateEnvExample sampleResolver (JObj [(''petstore_auth'', exOAuthNoFlows)]) JUndefined
     = Inr (preamble @ ''# API Authentication\<newline>''
            @ ''# OAuth2 authentication (unknown flow)\<newline>''
            @ ''OAUTH_TOKEN_PETSTORE_AUTH=your_oauth_token_here\<newline>'' @ footer)"
proof -
  have a1: "Object_entries (JObj [(''my-oauth.v2'', exOAuth)])
              = Inr ([] @ (''my-oauth.v2'', exOAuth) # [])"
    by (simp add: ownProperties_def isArrayIndex_def isDigit_def)
  have a2: "isDefinitionOfKind ''oauth2'' exOAuth"
    by (simp add: isDefinitionOfKind_def exOAuth_def)
  have a3: "getPropOpt exOAuth ''flows'' =
       JObj [(''authorizationCode'', JObj [(''scopes'', JObj [])]),
             (''clientCredentials'', JObj [(''scopes'', JObj [])])]"
    by (simp add: exOAuth_def)
  have b1: "Object_entries (JObj [(''petstore_auth'', exOAuthNoFlows)])
              = Inr ([] @ (''petstore_auth'', exOAuthNoFlows) # [])"
    by (simp add: ownProperties_def isArrayIndex_def isDigit_def)
  have b2: "isDefinitionOfKind ''oauth2'' exOAuthNoFlows"
    by (simp add: isDefinitionOfKind_def exOAuthNoFlows_def)
  have b3: "getPropOpt exOAuthNoFlows ''flows'' = JUndefined"
    by (simp add: exOAuthNoFlows_def)
  have up1: "toUpperCase (replaceNonAlnum ''my-oauth.v2'') = ''MY_OAUTH_V2''"
    by code_simp
  have up2: "toUpperCase (replaceNonAlnum ''petstore_auth'') = ''PETSTORE_AUTH''"
    by code_simp
  have keys: "map fst (ownProperties
       [(''authorizationCode'', JObj [(''scopes'', JObj [])]),
        (''clientCredentials'', JObj [(''scopes'', JObj [])])])
     = [''authorizationCode'', ''clientCredentials'']"
    by (simp add: ownProperties_def isArrayIndex_def isDigit_def)
  have c1: "generateEnvExample sampleResolver (JObj [(''my-oauth.v2'', exOAuth)]) JUndefined
     = Inr (preamble @ ''# API Authentication\<newline>''
            @ ''# OAuth2 authentication (authorizationCode, clientCredentials flow)\<newline>''
            @ ''OAUTH_TOKEN_MY_OAUTH_V2=your_oauth_token_here\<newline>'' @ footer)"
    using oauth2_lines [OF a1 a2, of sampleResolver JUndefined] a3
    by (simp add: keys up1 aroundEntry_def featureBlocks_def authHeader_def)
  have c2: "generateEnvExample sampleResolver (JObj [(''petstore_auth'', exOAuthNoFlows)]) JUndefined
     = Inr (preamble @ ''# API Authentication\<newline>''
            @ ''# OAuth2 authentication (unknown flow)\<newline>''
            @ ''OAUTH_TOKEN_PETSTORE_AUTH=your_oauth_token_here\<newline>'' @ footer)"
    using oauth2_lines [OF b1 b2, of sampleResolver JUndefined] b3
    by (simp add: up2 aroundEntry_def featureBlocks_def authHeader_def)
  show ?thesis
    using a1 a2 a3 b1 b2 b3 c1 c2 by simp
qed

text \<open>
  An empty \<open>flows\<close> object holds no flow, and the comment is not \<open>unknown\<close>; a
  name with a sharp s comes out with an underscore, where upper-casing first would
  give two letters \<open>S\<close>.
\<close>

theorem oauth2_lines_counterexample:
  "getPropOpt exOAuthEmptyFlows ''flows'' = JObj []
   \<and> Object_keys (JObj []) = Inr []
   \<and> generateEnvExample sampleResolver (JObj [(''auth'', exOAuthEmptyFlows)]) JUndefined
     = Inr (preamble @ ''# API Authentication\<newline>''
            @ ''# OAuth2 authentication ( flow)\<newline>''
            @ ''OAUTH_TOKEN_AUTH=your_oauth_token_here\<newline>'' @ footer)
   \<and> generateEnvExample sampleResolver (JObj [(''auth'', exOAuthEmptyFlows)]) JUndefined
     \<noteq> Inr (preamble @ ''# API Authentication\<newline>''
            @ ''# OAuth2 authentication (unknown flow)\<newline>''
            @ ''OAUTH_TOKEN_AUTH=your_oauth_token_here\<newline>'' @ footer)
   \<and> generateEnvExample sampleResolver (JObj [(exSharpS, exOAuthNoFlows)]) JUndefined
     = Inr (preamble @ ''# API Authentication\<newline>''
            @ ''# OAuth2 authentication (unknown flow)\<newline>''
            @ ''OAUTH_TOKEN_STRA_E=your_oauth_token_here\<newline>'' @ footer)
   \<and> upperCaseThenReplace exSharpS = ''STRASSE''
   \<and> toUpperCase (replaceNonAlnum exSharpS) = ''STRA_E''"
proof -
  have f: "getPropOpt exOAuthEmptyFlows ''flows'' = JObj []"
    by (simp add: exOAuthEmptyFlows_def)
  have k: "Object_keys (JObj []) = Inr []"
    by (simp add: Object_keys_def ownProperties_def)
  have up: "toUpperCase (replaceNonAlnum ''auth'') = ''AUTH''"
    by code_simp
  have code_order: "toUpperCase (replaceNonAlnum exSharpS) = ''STRA_E''"
    by code_simp
  have claim_order: "upperCaseThenReplace exSharpS = ''STRASSE''"
    by code_simp
  have e1: "Object_entries (JObj [(''auth'', exOAuthEmptyFlows)])
              = Inr [(''auth'', exOAuthEmptyFlows)]"
    by (simp add: ownProperties_def isArrayIndex_def isDigit_def)
  have s1: "schemeLoop sampleResolver [(''auth'', exOAuthEmptyFlows)] []
              = Inr (''# OAuth2 authentication ( flow)\<newline>''
                     @ ''OAUTH_TOKEN_AUTH=your_oauth_token_here\<newline>'')"
    by (simp add: schemeStep_def exOAuthEmptyFlows_def flowNames_def k up)
  have g1: "generateEnvExample sampleResolver (JObj [(''auth'', exOAuthEmptyFlows)]) JUndefined
     = Inr (preamble @ ''# API Authentication\<newline>''
            @ ''# OAuth2 authentication ( flow)\<newline>''
            @ ''OAUTH_TOKEN_AUTH=your_oauth_token_here\<newline>'' @ footer)"
  proof -
    have "generateEnvExample sampleResolver (JObj [(''auth'', exOAuthEmptyFlows)]) JUndefined
      = Inr (preamble @ authHeader
             @ (''# OAuth2 authentication ( flow)\<newline>''
                @ ''OAUTH_TOKEN_AUTH=your_oauth_token_here\<newline>'')
             @ featureBlocks JUndefined @ footer)"
      using generateEnvExample_nonempty [OF e1, of sampleResolver JUndefined]
      by (simp only: s1 sum.case list.distinct not_False_eq_True)
    then show ?thesis by (simp add: featureBlocks_def authHeader_def)
  qed
  have n1: "generateEnvExample sampleResolver (JObj [(''auth'', exOAuthEmptyFlows)]) JUndefined
     \<noteq> Inr (preamble @ ''# API Authentication\<newline>''
            @ ''# OAuth2 authentication (unknown flow)\<newline>''
            @ ''OAUTH_TOKEN_AUTH=your_oauth_token_here\<newline>'' @ footer)"
    unfolding g1 by simp
  have idx: "\<not> isArrayIndex exSharpS"
    by (simp add: exSharpS_def isArrayIndex_def isDigit_def)
  have e2: "Object_entries (JObj [(exSharpS, exOAuthNoFlows)])
              = Inr [(exSharpS, exOAuthNoFlows)]"
    by (simp add: ownProperties_def idx)
  have s2: "schemeLoop sampleResolver [(exSharpS, exOAuthNoFlows)] []
              = Inr (''# OAuth2 authentication (unknown flow)\<newline>''
                     @ ''OAUTH_TOKEN_STRA_E=your_oauth_token_here\<newline>'')"
    by (simp add: schemeStep_def exOAuthNoFlows_def flowNames_def code_order)
  have g2: "generateEnvExample sampleResolver (JObj [(exSharpS, exOAuthNoFlows)]) JUndefined
     = Inr (preamble @ ''# API Authentication\<newline>''
            @ ''# OAuth2 authentication (unknown flow)\<newline>''
            @ ''OAUTH_TOKEN_STRA_E=your_oauth_token_here\<newline>'' @ footer)"
  proof -
    have "generateEnvExample sampleResolver (JObj [(exSharpS, exOAuthNoFlows)]) JUndefined
      = Inr (preamble @ authHeader
             @ (''# OAuth2 authentication (unknown flow)\<newline>''
                @ ''OAUTH_TOKEN_STRA_E=your_oauth_token_here\<newline>'')
             @ featureBlocks JUndefined @ footer)"
      using generateEnvExample_nonempty [OF e2, of sampleResolver JUndefined]
      by (simp only: s2 sum.case list.distinct not_False_eq_True)
    then show ?thesis by (simp add: featureBlocks_def authHeader_def)
  qed
  from f k g1 n1 g2 claim_order code_order show ?thesis
    by (intro conjI)
qed

subsection \<open>HTTP schemes\<close>

lemma schemeStep_http:
  assumes "isDefinitionOfKind ''http'' v"
  shows "schemeStep r name v content =
     (case schemeLower (getPropOpt v ''scheme'') of
        Inl e \<Rightarrow> Inl e
      | Inr l \<Rightarrow>
          if l = JStr ''bearer'' then
            Inr (content @ r name ''BEARER_TOKEN'' @ ''=your_bearer_token_here\<newline>'')
          else if l = JStr ''basic'' then
            Inr (content @ r name ''BASIC_USERNAME'' @ ''=your_username_here\<newline>''
                 @ r name ''BASIC_PASSWORD'' @ ''=your_password_here\<newline>'')
          else Inr content)"
  using assms by (simp add: isDefinitionOfKind_def schemeStep_def Let_def split: sum.splits)

text \<open>
  Claim C3. An entry whose definition has kind \<open>http\<close> contributes: when its
  \<open>scheme\<close> field is \<open>bearer\<close> in any mix of upper and lower case, the one line
  \<open>resolver(name, BEARER_TOKEN)=your_bearer_token_here\<close>; when it is \<open>basic\<close> in
  any case, the two lines \<open>resolver(name, BASIC_USERNAME)=your_username_here\<close> and
  \<open>resolver(name, BASIC_PASSWORD)=your_password_here\<close>, in this order; when it is
  any other string, or missing, nothing, and the step succeeds with the content
  unchanged.
\<close>

theorem http_lines:
  assumes "Object_entries securitySchemes = Inr (before @ (name, v) # after)"
      and "isDefinitionOfKind ''http'' v"
  shows "(\<forall>s. getPropOpt v ''scheme'' = JStr s \<and> toLowerCase s = ''bearer'' \<longrightarrow>
            generateEnvExample r securitySchemes options =
              aroundEntry r before
                (r name ''BEARER_TOKEN'' @ ''=your_bearer_token_here\<newline>'') after options)
       \<and> (\<forall>s. getPropOpt v ''scheme'' = JStr s \<and> toLowerCase s = ''basic'' \<longrightarrow>
            generateEnvExample r securitySchemes options =
              aroundEntry r before
                (r name ''BASIC_USERNAME'' @ ''=your_username_here\<newline>''
                 @ r name ''BASIC_PASSWORD'' @ ''=your_password_here\<newline>'') after options)
       \<and> ((\<exists>s. getPropOpt v ''scheme'' = JStr s \<and> toLowerCase s \<noteq> ''bearer''
                \<and> toLowerCase s \<noteq> ''basic'')
           \<or> getPropOpt v ''scheme'' = JUndefined \<or> getPropOpt v ''scheme'' = JNull \<longrightarrow>
            schemeStep r name v content = Inr content
            \<and> generateEnvExample r securitySchemes options =
                aroundEntry r before [] after options)"
proof -
  note step = schemeStep_http [OF assms(2)]
  have at: "schemeStep r name v [] = Inr t \<Longrightarrow>
      generateEnvExample r securitySchemes options = aroundEntry r before t after options" for t
    using assms(1) by (rule generateEnvExample_at_entry)
  have bearer: "generateEnvExample r securitySchemes options =
      aroundEntry r before (r name ''BEARER_TOKEN'' @ ''=your_bearer_token_here\<newline>'')
        after options"
    if "getPropOpt v ''scheme'' = JStr s" "toLowerCase s = ''bearer''" for s
    using that by (intro at) (simp add: step)
  have basic: "generateEnvExample r securitySchemes options =
      aroundEntry r before
        (r name ''BASIC_USERNAME'' @ ''=your_username_here\<newline>''
         @ r name ''BASIC_PASSWORD'' @ ''=your_password_here\<newline>'') after options"
    if "getPropOpt v ''scheme'' = JStr s" "toLowerCase s = ''basic''" for s
    using that by (intro at) (simp add: step)
  have other: "schemeStep r name v c = Inr c"
    if "(\<exists>s. getPropOpt v ''scheme'' = JStr s \<and> toLowerCase s \<noteq> ''bearer''
                \<and> toLowerCase s \<noteq> ''basic'')
        \<or> getPropOpt v ''scheme'' = JUndefined \<or> getPropOpt v ''scheme'' = JNull" for c
    using that by (auto simp: step)
  show ?thesis
    using bearer basic other at [of "[]"] by blast
qed

theorem http_lines_witness:
  "Object_entries (JObj [(''bearerAuth'', exBearer)]) = Inr ([] @ (''bearerAuth'', exBearer) # [])
   \<and> isDefinitionOfKind ''http'' exBearer
   \<and> getPropOpt exBearer ''scheme'' = JStr ''Bearer'' \<and> toLowerCase ''Bearer'' = ''bearer''
   \<and> generateEnvExample sampleResolver (JObj [(''bearerAuth'', exBearer)]) JUndefined
     = Inr (preamble @ ''# API Authentication\<newline>''
            @ ''BEARER_TOKEN_bearerAuth=your_bearer_token_here\<newline>'' @ footer)
   \<and> Object_entries (JObj [(''basicAuth'', exBasic)]) = Inr ([] @ (''basicAuth'', exBasic) # [])
   \<and> isDefinitionOfKind ''http'' exBasic
   \<and> getPropOpt exBasic ''scheme'' = JStr ''BASIC'' \<and> toLowerCase ''BASIC'' = ''basic''
   \<and> generateEnvExample sampleResolver (JObj [(''basicAuth'', exBasic)]) JUndefined
     = Inr (preamble @ ''# API Authentication\<newline>''
            @ ''BASIC_USERNAME_basicAuth=your_username_here\<newline>''
            @ ''BASIC_PASSWORD_basicAuth=your_password_here\<newline>'' @ footer)
   \<and> Object_entries (JObj [(''digestAuth'', exDigest)]) = Inr ([] @ (''digestAuth'', exDigest) # [])
   \<and> isDefinitionOfKind ''http'' exDigest
   \<and> getPropOpt exDigest ''scheme'' = JStr ''digest''
   \<and> toLowerCase ''digest'' \<noteq> ''bearer'' \<and> toLowerCase ''digest'' \<noteq> ''basic''
   \<and> generateEnvExample sampleResolver (JObj [(''digestAuth'', exDigest)]) JUndefined
     = Inr (preamble @ ''# API Authentication\<newline>'' @ footer)
   \<and> Object_entries (JObj [(''plain'', exHttpNoScheme)]) = Inr ([] @ (''plain'', exHttpNoScheme) # [])
   \<and> isDefinitionOfKind ''http'' exHttpNoScheme
   \<and> getPropOpt exHttpNoScheme ''scheme'' = JUndefined
   \<and> generateEnvExample sampleResolver (JObj [(''plain'', exHttpNoScheme)]) JUndefined
     = Inr (preamble @ ''# API Authentication\<newline>'' @ footer)"
proof -
  have a1: "Object_entries (JObj [(''bearerAuth'', exBearer)])
              = Inr ([] @ (''bearerAuth'', exBearer) # [])"
    by (simp add: ownProperties_def isArrayIndex_def isDigit_def)
  have a2: "isDefinitionOfKind ''http'' exBearer"
    by (simp add: isDefinitionOfKind_def exBearer_def)
  have a3: "getPropOpt exBearer ''scheme'' = JStr ''Bearer''"
    by (simp add: exBearer_def)
  have a4: "toLowerCase ''Bearer'' = ''bearer''"
    by code_simp
  have a5: "generateEnvExample sampleResolver (JObj [(''bearerAuth'', exBearer)]) JUndefined
     = Inr (preamble @ ''# API Authentication\<newline>''
            @ ''BEARER_TOKEN_bearerAuth=your_bearer_token_here\<newline>'' @ footer)"
    using http_lines [OF a1 a2, of sampleResolver JUndefined] a3 a4
    by (simp add: aroundEntry_def featureBlocks_def authHeader_def sampleResolver_def)
  have b1: "Object_entries (JObj [(''basicAuth'', exBasic)])
              = Inr ([] @ (''basicAuth'', exBasic) # [])"
    by (simp add: ownProperties_def isArrayIndex_def isDigit_def)
  have b2: "isDefinitionOfKind ''http'' exBasic"
    by (simp add: isDefinitionOfKind_def exBasic_def)
  have b3: "getPropOpt exBasic ''scheme'' = JStr ''BASIC''"
    by (simp add: exBasic_def)
  have b4: "toLowerCase ''BASIC'' = ''basic''"
    by code_simp
  have b5: "generateEnvExample sampleResolver (JObj [(''basicAuth'', exBasic)]) JUndefined
     = Inr (preamble @ ''# API Authentication\<newline>''
            @ ''BASIC_USERNAME_basicAuth=your_username_here\<newline>''
            @ ''BASIC_PASSWORD_basicAuth=your_password_here\<newline>'' @ footer)"
    using http_lines [OF b1 b2, of sampleResolver JUndefined] b3 b4
    by (simp add: aroundEntry_def featureBlocks_def authHeader_def sampleResolver_def)
  have c1: "Object_entries (JObj [(''digestAuth'', exDigest)])
              = Inr ([] @ (''digestAuth'', exDigest) # [])"
    by (simp add: ownProperties_def isArrayIndex_def isDigit_def)
  have c2: "isDefinitionOfKind ''http'' exDigest"
    by (simp add: isDefinitionOfKind_def exDigest_def)
  have c3: "getPropOpt exDigest ''scheme'' = JStr ''digest''"
    by (simp add: exDigest_def)
  have c4: "toLowerCase ''digest'' \<noteq> ''bearer''" "toLowerCase ''digest'' \<noteq> ''basic''"
    by code_simp+
  have c5: "generateEnvExample sampleResolver (JObj [(''digestAuth'', exDigest)]) JUndefined
     = Inr (preamble @ ''# API Authentication\<newline>'' @ footer)"
    using http_lines [OF c1 c2, of sampleResolver JUndefined] c3 c4
    by (simp add: aroundEntry_def featureBlocks_def authHeader_def)
  have d1: "Object_entries (JObj [(''plain'', exHttpNoScheme)])
              = Inr ([] @ (''plain'', exHttpNoScheme) # [])"
    by (simp add: ownProperties_def isArrayIndex_def isDigit_def)
  have d2: "isDefinitionOfKind ''http'' exHttpNoScheme"
    by (simp add: isDefinitionOfKind_def exHttpNoScheme_def)
  have d3: "getPropOpt exHttpNoScheme ''scheme'' = JUndefined"
    by (simp add: exHttpNoScheme_def)
  have d5: "generateEnvExample sampleResolver (JObj [(''plain'', exHttpNoScheme)]) JUndefined
     = Inr (preamble @ ''# API Authentication\<newline>'' @ footer)"
    using http_lines [OF d1 d2, of sampleResolver JUndefined] d3
    by (simp add: aroundEntry_def featureBlocks_def authHeader_def)
  show ?thesis
    using a1 a2 a3 a4 a5 b1 b2 b3 b4 b5 c1 c2 c3 c4 c5 d1 d2 d3 d5 by simp
qed

subsection \<open>The optional blocks and the closing comment\<close>

lemma generateEnvExample_sections:
  "generateEnvExample r securitySchemes options =
     (case headAndAuth r securitySchemes of
        Inl e \<Rightarrow> Inl e
      | Inr c \<Rightarrow> Inr (c @ featureBlocks options @ footer))"
  by (simp add: generateEnvExample_def headAndAuth_def featureBlocks_def Let_def
      split: sum.splits)

lemma headAndAuth_shape:
  "headAndAuth r securitySchemes = Inr c \<Longrightarrow> \<exists>a. c = preamble @ a"
proof -
  assume c: "headAndAuth r securitySchemes = Inr c"
  show ?thesis
  proof (cases "truthy securitySchemes \<and> Object_keys securitySchemes \<noteq> Inr []")
    case False
    then have "c = preamble @ noAuthLine"
      using c by (auto simp: headAndAuth_def authSection_def split: sum.splits if_splits)
    then show ?thesis by blast
  next
    case True
    then obtain es where es: "Object_entries securitySchemes = Inr es"
      by (cases securitySchemes) auto
    with True c have "schemeLoop r es (preamble @ authHeader) = Inr c"
      by (auto simp: headAndAuth_def authSection_def Object_keys_def split: if_splits)
    then obtain t where "c = (preamble @ authHeader) @ t"
      using schemeLoop_content [of r es "preamble @ authHeader"]
      by (auto split: sum.splits)
    then show ?thesis by auto
  qed
qed

text \<open>
  Claim C5. Whatever the scheme mapping, the options only decide which of the two fixed
  blocks stand between the authentication section and the closing comment. With the
  analytics toggle alone the artifact is the preamble and the authentication section,
  the \<open>MCPCAT_PROJECT_ID\<close> block and the closing comment; with both toggles the
  tracing block follows the analytics block; with the tracing toggle alone only the
  tracing block is there; with neither, the closing comment follows the authentication
  section directly. The closing comment ends every artifact.
\<close>

theorem feature_blocks_order:
  assumes "headAndAuth r securitySchemes = Inr c"
  shows "(\<exists>a. c = preamble @ a)
       \<and> generateEnvExample r securitySchemes optsOff = Inr (c @ footer)
       \<and> generateEnvExample r securitySchemes optsMcpcat = Inr (c @ mcpcatBlock @ footer)
       \<and> generateEnvExample r securitySchemes optsOtel = Inr (c @ otelBlock @ footer)
       \<and> generateEnvExample r securitySchemes optsBoth
           = Inr (c @ mcpcatBlock @ otelBlock @ footer)
       \<and> (\<forall>options.
             generateEnvExample r securitySchemes options =
               Inr (c @ (if truthy (getPropOpt options ''withMcpcat'') then mcpcatBlock else [])
                      @ (if truthy (getPropOpt options ''withOtel'') then otelBlock else [])
                      @ footer))"
proof -
  have gen: "generateEnvExample r securitySchemes options
               = Inr (c @ featureBlocks options @ footer)" for options
    using assms by (simp add: generateEnvExample_sections)
  have every: "\<forall>options.
             generateEnvExample r securitySchemes options =
               Inr (c @ (if truthy (getPropOpt options ''withMcpcat'') then mcpcatBlock else [])
                      @ (if truthy (getPropOpt options ''withOtel'') then otelBlock else [])
                      @ footer)"
    using gen by (simp add: featureBlocks_def)
  have off: "featureBlocks optsOff = []"
    and mcp: "featureBlocks optsMcpcat = mcpcatBlock"
    and otel: "featureBlocks optsOtel = otelBlock"
    and both: "featureBlocks optsBoth = mcpcatBlock @ otelBlock"
    by (simp_all add: featureBlocks_def optsOff_def optsMcpcat_def optsOtel_def optsBoth_def)
  show ?thesis
    using headAndAuth_shape [OF assms] every gen [of optsOff] gen [of optsMcpcat]
      gen [of optsOtel] gen [of optsBoth]
    by (simp only: off mcp otel both append_Nil append_assoc simp_thms)
qed

theorem feature_blocks_order_witness:
  "headAndAuth sampleResolver (JObj [(''bearerAuth'', exBearer)])
     = Inr (preamble @ ''# API Authentication\<newline>''
            @ ''BEARER_TOKEN_bearerAuth=your_bearer_token_here\<newline>'')
   \<and> generateEnvExample sampleResolver (JObj [(''bearerAuth'', exBearer)]) optsMcpcat
     = Inr (preamble @ ''# API Authentication\<newline>''
            @ ''BEARER_TOKEN_bearerAuth=your_bearer_token_here\<newline>''
            @ ''\<newline># MCPcat -- MCP product analytics and live debugging tools\<newline>''
            @ ''# Sign up and get your project ID for free at https://mcpcat.io\<newline>''
            @ ''MCPCAT_PROJECT_ID=proj_0000000  # Replace with your MCPcat project ID\<newline>''
            @ ''\<newline># Add any other environment variables your API might need\<newline>'')
   \<and> generateEnvExample sampleResolver (JObj [(''bearerAuth'', exBearer)]) optsBoth
     = Inr (preamble @ ''# API Authentication\<newline>''
            @ ''BEARER_TOKEN_bearerAuth=your_bearer_token_here\<newline>''
            @ ''\<newline># MCPcat -- MCP product analytics and live debugging tools\<newline>''
            @ ''# Sign up and get your project ID for free at https://mcpcat.io\<newline>''
            @ ''MCPCAT_PROJECT_ID=proj_0000000  # Replace with your MCPcat project ID\<newline>''
            @ ''\<newline># OpenTelemetry Configuration for logging and traces\<newline>''
            @ ''OTLP_ENDPOINT=http://localhost:4318/v1/traces  # OTLP collector endpoint\<newline>''
            @ ''\<newline># Add any other environment variables your API might need\<newline>'')"
proof -
  have lower: "toLowerCase ''Bearer'' = ''bearer''"
    by code_simp
  have h: "headAndAuth sampleResolver (JObj [(''bearerAuth'', exBearer)])
     = Inr (preamble @ ''# API Authentication\<newline>''
            @ ''BEARER_TOKEN_bearerAuth=your_bearer_token_here\<newline>'')"
    by (simp add: headAndAuth_def authSection_def Object_keys_def ownProperties_def
        isArrayIndex_def isDigit_def schemeStep_def exBearer_def lower authHeader_def
        sampleResolver_def)
  let ?c = "preamble @ ''# API Authentication\<newline>''
            @ ''BEARER_TOKEN_bearerAuth=your_bearer_token_here\<newline>''"
  have m: "generateEnvExample sampleResolver (JObj [(''bearerAuth'', exBearer)]) optsMcpcat
             = Inr (?c @ mcpcatBlock @ footer)"
    using feature_blocks_order [OF h] by blast
  have b: "generateEnvExample sampleResolver (JObj [(''bearerAuth'', exBearer)]) optsBoth
             = Inr (?c @ mcpcatBlock @ otelBlock @ footer)"
    using feature_blocks_order [OF h] by blast
  show ?thesis
    using h m b by (simp add: mcpcatBlock_def otelBlock_def footer_def)
qed

text \<open>
  Claim C10. Leaving the options argument out gives the same text as passing an options
  object whose two toggles are both \<open>false\<close>, whatever else the object holds.
\<close>

theorem options_omitted:
  assumes "map_of fields ''withMcpcat'' = Some (JBool False)"
      and "map_of fields ''withOtel'' = Some (JBool False)"
  shows "generateEnvExample r securitySchemes JUndefined =
           generateEnvExample r securitySchemes (JObj fields)"
  using assms by (simp add: generateEnvExample_def split: sum.splits)

theorem options_omitted_witness:
  "map_of [(''withMcpcat'', JBool False), (''withOtel'', JBool False)] ''withMcpcat''
     = Some (JBool False)
   \<and> map_of [(''withMcpcat'', JBool False), (''withOtel'', JBool False)] ''withOtel''
     = Some (JBool False)
   \<and> generateEnvExample sampleResolver (JObj [(''basicAuth'', exBasic)]) JUndefined
     = generateEnvExample sampleResolver (JObj [(''basicAuth'', exBasic)]) optsOff"
proof -
  have h1: "map_of [(''withMcpcat'', JBool False), (''withOtel'', JBool False)] ''withMcpcat''
     = Some (JBool False)"
    by simp
  have h2: "map_of [(''withMcpcat'', JBool False), (''withOtel'', JBool False)] ''withOtel''
     = Some (JBool False)"
    by simp
  show ?thesis
    using h1 h2 options_omitted [OF h1 h2, of sampleResolver "JObj [(''basicAuth'', exBasic)]"]
    by (simp add: optsOff_def)
qed

subsection \<open>The loader stub\<close>

lemma splitLines_generateDotenvConfig:
  "splitLines (generateDotenvConfig u) =
     ['''',
      ''/**'',
      '' * Load environment variables from .env file'',
      '' */'',
      ''import dotenv from 'dotenv';'',
      ''import path from 'path';'',
      ''import { fileURLToPath } from 'url';'',
      '''',
      ''const __filename = fileURLToPath(import.meta.url);'',
      ''const __dirname = path.dirname(__filename);'',
      '''',
      ''// Load environment variables from .env file'',
      ''const result = dotenv.config({ path: path.resolve(__dirname, '../.env') });'',
      '''',
      ''if (result.error) {'',
      ''  console.warn('Warning: No .env file found or error loading .env file.');'',
      ''  console.warn('Using default environment variables.');'',
      ''}'',
      '''',
      ''export const config = {'',
      ''  port: process.env.PORT || '3000','',
      ''  logLevel: process.env.LOG_LEVEL || 'info','',
      ''};'',
      '''']"
  by (simp add: generateDotenvConfig_def splitLines_def)

text \<open>
  Claim C9. \<open>generateDotenvConfig\<close> has no parameter and returns one fixed text. In
  that text the configuration record gives \<open>port\<close> the default \<open>3000\<close> and
  \<open>logLevel\<close> the default \<open>info\<close>, each after the environment variable that
  overrides it.
\<close>

theorem generateDotenvConfig_constant:
  "generateDotenvConfig u = generateDotenvConfig ()
   \<and> hasLine ''  port: process.env.PORT || '3000','' (generateDotenvConfig u)
   \<and> hasLine ''  logLevel: process.env.LOG_LEVEL || 'info','' (generateDotenvConfig u)"
  by (simp add: hasLine_def splitLines_generateDotenvConfig)

subsection \<open>Exceptions\<close>

lemma schemeLower_succeeds:
  "(\<exists>l. schemeLower v = Inr l) = stringOrAbsent v"
  by (cases v) auto

lemma schemeStep_succeeds:
  "(\<exists>c. schemeStep r name v content = Inr c) = entryAccepted v"
proof (cases "hasProperty ''$ref'' v")
  case (Inl e)
  then show ?thesis by (simp add: schemeStep_def entryAccepted_def)
next
  case (Inr b)
  show ?thesis
  proof (cases b)
    case True
    with Inr show ?thesis
      by (simp add: schemeStep_def entryAccepted_def)
  next
    case False
    show ?thesis
    proof (cases "getPropOpt v ''type'' = JStr ''http''")
      case True
      with Inr False show ?thesis
        using schemeLower_succeeds [of "getPropOpt v ''scheme''"]
        by (auto simp: schemeStep_def entryAccepted_def Let_def split: sum.splits)
    next
      case other: False
      with Inr False show ?thesis
        using flowNames_returns [of "getPropOpt v ''flows''"]
        by (auto simp: schemeStep_def entryAccepted_def Let_def)
    qed
  qed
qed

lemma schemeLoop_succeeds:
  "(\<exists>c. schemeLoop r es content = Inr c) = (\<forall>(name, v) \<in> set es. entryAccepted v)"
proof (induction es arbitrary: content)
  case Nil
  show ?case by simp
next
  case (Cons p es)
  obtain name v where p: "p = (name, v)" by (cases p)
  show ?case
  proof (cases "schemeStep r name v content")
    case (Inl e)
    then have "\<not> entryAccepted v"
      using schemeStep_succeeds [of r name v content] by simp
    with Inl p show ?thesis by simp
  next
    case (Inr c')
    then have "entryAccepted v"
      using schemeStep_succeeds [of r name v content] by auto
    with Inr p Cons.IH [of c'] show ?thesis by simp
  qed
qed

lemma schemeStep_unknown_kind:
  assumes "hasProperty ''$ref'' v = Inr False"
      and "getPropOpt v ''type'' \<noteq> JStr ''apiKey''"
      and "getPropOpt v ''type'' \<noteq> JStr ''http''"
      and "getPropOpt v ''type'' \<noteq> JStr ''oauth2''"
  shows "schemeStep r name v content = Inr content"
  using assms by (simp add: schemeStep_def)

text \<open>
  Claim C7, as the code has it. \<open>generateEnvExample\<close> returns a text exactly when
  every entry that the loop visits is an object whose \<open>scheme\<close> field, if the entry is
  a definition of kind \<open>http\<close>, is a string or absent; this holds for every mapping of
  the declared type, and the options never matter. On any other entry the \<open>in\<close>
  test or the call of \<open>toLowerCase\<close> throws a \<open>TypeError\<close>. An object without
  \<open>$ref\<close> whose kind is none of \<open>apiKey\<close>, \<open>http\<close>, \<open>oauth2\<close> leaves the content
  as it is. (\<open>generateDotenvConfig\<close> is a string literal: its model has no error
  result.)
\<close>

theorem generateEnvExample_returns_iff:
  "((\<exists>out. generateEnvExample r securitySchemes options = Inr out)
      = (\<forall>(name, v) \<in> set (entriesOf securitySchemes). entryAccepted v))
   \<and> (hasProperty ''$ref'' v = Inr False \<and> getPropOpt v ''type'' \<noteq> JStr ''apiKey''
        \<and> getPropOpt v ''type'' \<noteq> JStr ''http'' \<and> getPropOpt v ''type'' \<noteq> JStr ''oauth2''
      \<longrightarrow> schemeStep r name' v content = Inr content)"
proof -
  have "(\<exists>out. generateEnvExample r securitySchemes options = Inr out)
      = (\<forall>(name, v) \<in> set (entriesOf securitySchemes). entryAccepted v)"
  proof (cases "entriesOf securitySchemes = []")
    case True
    then have "\<not> truthy securitySchemes \<or> Object_entries securitySchemes = Inr []"
      by (cases securitySchemes) (auto simp: entriesOf_def)
    then show ?thesis
      using True by (simp add: generateEnvExample_empty)
  next
    case False
    then have es: "Object_entries securitySchemes = Inr (entriesOf securitySchemes)"
      by (auto simp: entriesOf_def split: sum.splits)
    show ?thesis
      using generateEnvExample_nonempty [OF es False, of r options]
        schemeLoop_succeeds [of r "entriesOf securitySchemes" "[]"]
      by (auto split: sum.splits)
  qed
  then show ?thesis
    by (simp add: schemeStep_unknown_kind)
qed

theorem generateEnvExample_returns_iff_witness:
  "(\<exists>out. generateEnvExample sampleResolver
             (JObj [(''basicAuth'', exBasic), (''oidc'', exOpenId)]) optsBoth = Inr out)
   \<and> entryAccepted exBasic \<and> entryAccepted exOpenId
   \<and> hasProperty ''$ref'' exOpenId = Inr False
   \<and> getPropOpt exOpenId ''type'' = JStr ''openIdConnect''
   \<and> schemeStep sampleResolver ''oidc'' exOpenId ''PORT=3000'' = Inr ''PORT=3000''"
proof -
  have a: "entryAccepted exBasic" "entryAccepted exOpenId"
    by (simp_all add: entryAccepted_def exBasic_def exOpenId_def)
  have es: "entriesOf (JObj [(''basicAuth'', exBasic), (''oidc'', exOpenId)])
              = [(''basicAuth'', exBasic), (''oidc'', exOpenId)]"
    by (simp add: entriesOf_def ownProperties_def isArrayIndex_def isDigit_def)
  have h: "hasProperty ''$ref'' exOpenId = Inr False"
    "getPropOpt exOpenId ''type'' = JStr ''openIdConnect''"
    by (simp_all add: exOpenId_def)
  note inst = generateEnvExample_returns_iff
    [of sampleResolver "JObj [(''basicAuth'', exBasic), (''oidc'', exOpenId)]" optsBoth
        exOpenId "''oidc''" "''PORT=3000''"]
  have ret: "\<exists>out. generateEnvExample sampleResolver
             (JObj [(''basicAuth'', exBasic), (''oidc'', exOpenId)]) optsBoth = Inr out"
    using inst a es by simp
  have step: "schemeStep sampleResolver ''oidc'' exOpenId ''PORT=3000'' = Inr ''PORT=3000''"
    using inst h by simp
  show ?thesis
    using ret a h step by simp
qed

theorem generateEnvExample_raises_counterexample:
  "generateEnvExample sampleResolver (JObj [(''broken'', JNull)]) JUndefined = Inl TypeError
   \<and> generateEnvExample sampleResolver
        (JObj [(''odd'', JObj [(''type'', JStr ''http''), (''scheme'', JNum 1)])]) JUndefined
       = Inl TypeError"
  by (simp add: generateEnvExample_def authSection_def Object_keys_def ownProperties_def
      isArrayIndex_def isDigit_def schemeStep_def)

subsection \<open>The authentication section\<close>

lemma schemeLoop_texts:
  "schemeLoop r es [] = Inr t \<Longrightarrow>
     \<exists>ts. list_all2 (\<lambda>(name, v) u. schemeStep r name v [] = Inr u) es ts \<and> t = concat ts"
proof (induction es arbitrary: t)
  case Nil
  then show ?case by simp
next
  case (Cons p es)
  obtain name v where p: "p = (name, v)" by (cases p)
  from Cons.prems p obtain u where u: "schemeStep r name v [] = Inr u"
    and rest: "schemeLoop r es u = Inr t"
    by (auto split: sum.splits)
  from rest obtain t' where t': "schemeLoop r es [] = Inr t'" and t: "t = u @ t'"
    using schemeLoop_content [of r es u] by (auto split: sum.splits)
  from Cons.IH [OF t'] obtain ts
    where ts: "list_all2 (\<lambda>(name, v) u. schemeStep r name v [] = Inr u) es ts"
      and c: "t' = concat ts"
    by blast
  have "list_all2 (\<lambda>(name, v) u. schemeStep r name v [] = Inr u) (p # es) (u # ts)"
    using p u ts by simp
  moreover have "t = concat (u # ts)"
    using t c by simp
  ultimately show ?case by blast
qed

lemma ownProperties_insertion_order:
  assumes "\<forall>k \<in> set (map fst ps). \<not> isArrayIndex k"
  shows "ownProperties ps = ps"
proof -
  have "filter (\<lambda>p. isArrayIndex (fst p)) ps = []"
    using assms by (auto simp: filter_empty_conv)
  moreover have "filter (\<lambda>p. \<not> isArrayIndex (fst p)) ps = ps"
    using assms by (auto simp: filter_id_conv)
  ultimately show ?thesis by (simp add: ownProperties_def)
qed

text \<open>
  Claim C1, as the code has it. The test is on the mapping, not on what the loop
  produces. When the mapping is absent or has no entry, the authentication section is
  the single line \<open># No API authentication required\<close>. When it has an entry, the
  section is the header \<open># API Authentication\<close> followed by the text of each entry,
  in the order in which \<open>Object.entries\<close> enumerates them, also when no entry gives a
  declaration. That order is the insertion order when no scheme name is an array index;
  names that are array indices come first, in ascending numeric order.
\<close>

theorem auth_section_shape:
  "(\<not> truthy securitySchemes \<or> Object_keys securitySchemes = Inr [] \<longrightarrow>
      generateEnvExample r securitySchemes options =
        Inr (preamble @ ''# No API authentication required\<newline>''
             @ featureBlocks options @ footer))
   \<and> (\<forall>es out. Object_entries securitySchemes = Inr es \<and> es \<noteq> []
          \<and> generateEnvExample r securitySchemes options = Inr out \<longrightarrow>
        (\<exists>ts. list_all2 (\<lambda>(name, v) t. schemeStep r name v [] = Inr t) es ts
           \<and> out = preamble @ ''# API Authentication\<newline>'' @ concat ts
                   @ featureBlocks options @ footer))
   \<and> (\<forall>ps. securitySchemes = JObj ps \<and> (\<forall>k \<in> set (map fst ps). \<not> isArrayIndex k) \<longrightarrow>
        Object_entries securitySchemes = Inr ps)"
proof -
  have none: "generateEnvExample r securitySchemes options =
        Inr (preamble @ ''# No API authentication required\<newline>''
             @ featureBlocks options @ footer)"
    if "\<not> truthy securitySchemes \<or> Object_keys securitySchemes = Inr []"
  proof -
    from that have "\<not> truthy securitySchemes \<or> Object_entries securitySchemes = Inr []"
      by (auto simp: Object_keys_def split: sum.splits)
    then show ?thesis
      using generateEnvExample_empty [of securitySchemes r options]
      by (simp add: noAuthLine_def)
  qed
  have some: "\<exists>ts. list_all2 (\<lambda>(name, v) t. schemeStep r name v [] = Inr t) es ts
           \<and> out = preamble @ ''# API Authentication\<newline>'' @ concat ts
                   @ featureBlocks options @ footer"
    if es: "Object_entries securitySchemes = Inr es" and ne: "es \<noteq> []"
      and out: "generateEnvExample r securitySchemes options = Inr out" for es out
  proof -
    from generateEnvExample_nonempty [OF es ne, of r options] out
    obtain t where t: "schemeLoop r es [] = Inr t"
      and o: "out = preamble @ authHeader @ t @ featureBlocks options @ footer"
      by (auto split: sum.splits)
    from schemeLoop_texts [OF t] o show ?thesis
      by (auto simp: authHeader_def)
  qed
  have order: "Object_entries securitySchemes = Inr ps"
    if "securitySchemes = JObj ps" "\<forall>k \<in> set (map fst ps). \<not> isArrayIndex k" for ps
    using that by (simp add: ownProperties_insertion_order)
  show ?thesis
    using none some order by blast
qed

theorem auth_section_shape_witness:
  "generateEnvExample sampleResolver JUndefined JUndefined
     = Inr (preamble @ ''# No API authentication required\<newline>'' @ footer)
   \<and> generateEnvExample sampleResolver (JObj []) JUndefined
     = Inr (preamble @ ''# No API authentication required\<newline>'' @ footer)
   \<and> Object_entries exSchemes
     = Inr [(''key'', JObj [(''type'', JStr ''apiKey'')]), (''basicAuth'', exBasic),
            (''oauth'', exOAuthNoFlows)]
   \<and> (\<exists>out. generateEnvExample sampleResolver exSchemes JUndefined = Inr out
        \<and> (\<exists>ts. list_all2 (\<lambda>(name, v) t. schemeStep sampleResolver name v [] = Inr t)
                   [(''key'', JObj [(''type'', JStr ''apiKey'')]), (''basicAuth'', exBasic),
                    (''oauth'', exOAuthNoFlows)] ts
              \<and> out = preamble @ ''# API Authentication\<newline>'' @ concat ts @ footer))"
proof -
  note inst = auth_section_shape [of _ sampleResolver JUndefined]
  have f: "featureBlocks JUndefined = []"
    by (simp add: featureBlocks_def)
  have w1: "generateEnvExample sampleResolver JUndefined JUndefined
     = Inr (preamble @ ''# No API authentication required\<newline>'' @ footer)"
    using inst [of JUndefined] by (simp add: f)
  have w2: "generateEnvExample sampleResolver (JObj []) JUndefined
     = Inr (preamble @ ''# No API authentication required\<newline>'' @ footer)"
    using inst [of "JObj []"] by (simp add: f Object_keys_def ownProperties_def)
  have names: "\<forall>k \<in> set (map fst [(''key'', JObj [(''type'', JStr ''apiKey'')]),
                  (''basicAuth'', exBasic), (''oauth'', exOAuthNoFlows)]). \<not> isArrayIndex k"
    by (simp add: isArrayIndex_def isDigit_def)
  have w3: "Object_entries exSchemes
     = Inr [(''key'', JObj [(''type'', JStr ''apiKey'')]), (''basicAuth'', exBasic),
            (''oauth'', exOAuthNoFlows)]"
    using inst [of exSchemes] names by (simp add: exSchemes_def)
  have ret: "\<exists>out. generateEnvExample sampleResolver exSchemes JUndefined = Inr out"
    using generateEnvExample_nonempty [OF w3, of sampleResolver JUndefined]
    by (simp add: schemeStep_def exBasic_def exOAuthNoFlows_def flowNames_def
        split: sum.splits)
  then obtain out where out: "generateEnvExample sampleResolver exSchemes JUndefined = Inr out"
    by blast
  have w4: "\<exists>ts. list_all2 (\<lambda>(name, v) t. schemeStep sampleResolver name v [] = Inr t)
                   [(''key'', JObj [(''type'', JStr ''apiKey'')]), (''basicAuth'', exBasic),
                    (''oauth'', exOAuthNoFlows)] ts
              \<and> out = preamble @ ''# API Authentication\<newline>'' @ concat ts @ footer"
    using inst [of exSchemes] w3 out f by simp
  show ?thesis
    using w1 w2 w3 out w4 by blast
qed

theorem auth_section_counterexample:
  "generateEnvExample sampleResolver (JObj [(''oidc'', exOpenId)]) JUndefined
     = Inr (preamble @ ''# API Authentication\<newline>'' @ footer)
   \<and> hasLine ''# API Authentication''
        (preamble @ ''# API Authentication\<newline>'' @ footer)
   \<and> \<not> hasLine ''# No API authentication required''
        (preamble @ ''# API Authentication\<newline>'' @ footer)
   \<and> generateEnvExample sampleResolver exNumbered JUndefined
     = Inr (preamble @ ''# API Authentication\<newline>''
            @ ''API_KEY_1=your_api_key_here\<newline>''
            @ ''API_KEY_2=your_api_key_here\<newline>''
            @ ''API_KEY_legacy=your_api_key_here\<newline>'' @ footer)"
proof -
  have a: "generateEnvExample sampleResolver (JObj [(''oidc'', exOpenId)]) JUndefined
     = Inr (preamble @ ''# API Authentication\<newline>'' @ footer)"
    by (simp add: generateEnvExample_def authSection_def Object_keys_def ownProperties_def
        isArrayIndex_def isDigit_def schemeStep_def exOpenId_def authHeader_def)
  have ls: "splitLines (preamble @ ''# API Authentication\<newline>'' @ footer)
     = [''# MCP Server Environment Variables'',
        ''# Copy this file to .env and fill in the values'',
        '''',
        ''# Server configuration'',
        ''PORT=3000'',
        ''LOG_LEVEL=info'',
        '''',
        ''# API Authentication'',
        '''',
        ''# Add any other environment variables your API might need'',
        '''']"
    by (simp add: splitLines_def preamble_def footer_def)
  have idx: "isArrayIndex ''1''" "isArrayIndex ''2''" "\<not> isArrayIndex ''legacy''"
    "decimalValue ''1'' = 1" "decimalValue ''2'' = 2"
    by (simp_all add: isArrayIndex_def isDigit_def decimalValue_def digitValue_def)
  have ents: "Object_entries exNumbered
     = Inr [(''1'', JObj [(''type'', JStr ''apiKey'')]),
            (''2'', JObj [(''type'', JStr ''apiKey'')]),
            (''legacy'', JObj [(''type'', JStr ''apiKey'')])]"
    by (simp add: exNumbered_def ownProperties_def idx sort_key_def)
  have b: "generateEnvExample sampleResolver exNumbered JUndefined
     = Inr (preamble @ ''# API Authentication\<newline>''
            @ ''API_KEY_1=your_api_key_here\<newline>''
            @ ''API_KEY_2=your_api_key_here\<newline>''
            @ ''API_KEY_legacy=your_api_key_here\<newline>'' @ footer)"
    using generateEnvExample_nonempty [OF ents, of sampleResolver JUndefined]
    by (simp add: schemeStep_def sampleResolver_def featureBlocks_def authHeader_def)
  have h1: "hasLine ''# API Authentication''
        (preamble @ ''# API Authentication\<newline>'' @ footer)"
    unfolding hasLine_def ls by simp
  have h2: "\<not> hasLine ''# No API authentication required''
        (preamble @ ''# API Authentication\<newline>'' @ footer)"
    unfolding hasLine_def ls by simp
  from a h1 h2 b show ?thesis
    by (intro conjI)
qed

end
